theory Spec2Isabelle
  imports Complex_Main
begin

section \<open>Python values, dictionaries and strings\<close>

text \<open>
  The metadata engine works on dynamically typed tag values. A value of the source is a
  \<open>pyval\<close>. Floats are modelled as exact rationals (finite values, no rounding);
  a \<open>Fraction\<close> carries numerator and denominator as the object stores them (the
  ratio class of the EXIF reader can hold a zero denominator); a datetime is given by the
  text of its standard rendering; \<open>POther\<close> is any other object, carrying what
  \<open>str()\<close> gives for it (\<open>None\<close> when \<open>str()\<close> raises).
  Text is \<open>string\<close>: one \<open>char\<close> per code point, for the code points U+0000 to U+00FF.
\<close>

datatype pyval =
    PNone
  | PBool bool
  | PInt int
  | PFloat rat
  | PStr string
  | PBytes string
  | PList "pyval list"
  | PTuple "pyval list"
  | PDict "(string \<times> pyval) list"
  | PFraction int int
  | PDatetime string
  | POther "string option"

text \<open>A dict keeps insertion order: an association list with one entry per key.\<close>

type_synonym pydict = "(string \<times> pyval) list"

definition dict_get :: "pydict \<Rightarrow> string \<Rightarrow> pyval option" where
  "dict_get d k = map_of d k"

definition has_key :: "pydict \<Rightarrow> string \<Rightarrow> bool" where
  "has_key d k = (dict_get d k \<noteq> None)"

text \<open>\<open>d[k] = v\<close>: an existing key keeps its place, a new key goes to the end.\<close>

fun dict_set :: "pydict \<Rightarrow> string \<Rightarrow> pyval \<Rightarrow> pydict" where
  "dict_set [] k v = [(k, v)]"
| "dict_set (p # ps) k v = (if fst p = k then (k, v) # ps else p # dict_set ps k v)"

text \<open>\<open>d.update(e)\<close>: every item of \<open>e\<close> is stored into \<open>d\<close>, in the order of \<open>e\<close>.\<close>

fun dict_update :: "pydict \<Rightarrow> pydict \<Rightarrow> pydict" where
  "dict_update d [] = d"
| "dict_update d ((k, v) # e) = dict_update (dict_set d k v) e"

text \<open>Truth value of an object, as \<open>if x:\<close> tests it.\<close>

fun truthy :: "pyval \<Rightarrow> bool" where
  "truthy PNone = False"
| "truthy (PBool b) = b"
| "truthy (PInt i) = (i \<noteq> 0)"
| "truthy (PFloat r) = (r \<noteq> 0)"
| "truthy (PStr s) = (s \<noteq> [])"
| "truthy (PBytes s) = (s \<noteq> [])"
| "truthy (PList xs) = (xs \<noteq> [])"
| "truthy (PTuple xs) = (xs \<noteq> [])"
| "truthy (PDict d) = (d \<noteq> [])"
| "truthy (PFraction n d) = (n \<noteq> 0)"
| "truthy (PDatetime s) = True"
| "truthy (POther s) = True"

text \<open>\<open>s.startswith(p)\<close> and \<open>sub in s\<close> on strings.\<close>

fun startswith :: "string \<Rightarrow> string \<Rightarrow> bool" where
  "startswith s [] = True"
| "startswith [] (p # ps) = False"
| "startswith (c # cs) (p # ps) = (c = p \<and> startswith cs ps)"

fun str_in :: "string \<Rightarrow> string \<Rightarrow> bool" where
  "str_in sub [] = (sub = [])"
| "str_in sub (c # cs) = (startswith (c # cs) sub \<or> str_in sub cs)"

text \<open>
  The scan \<open>for key in keys: if key in metadata and test(metadata[key]): ... break\<close>
  finds something exactly when some listed key is present with a value passing the test.
\<close>

definition key_passes :: "(pyval \<Rightarrow> bool) \<Rightarrow> pydict \<Rightarrow> string \<Rightarrow> bool" where
  "key_passes test metadata key =
     (case dict_get metadata key of None \<Rightarrow> False | Some v \<Rightarrow> test v)"

definition any_key :: "(pyval \<Rightarrow> bool) \<Rightarrow> pydict \<Rightarrow> string list \<Rightarrow> bool" where
  "any_key test metadata keys = list_ex (key_passes test metadata) keys"

definition is_not_none :: "pyval \<Rightarrow> bool" where
  "is_not_none v = (v \<noteq> PNone)"

section \<open>Device identifier: privacy assessment\<close>

datatype risk = Low | Medium | High

fun risk_rank :: "risk \<Rightarrow> nat" where
  "risk_rank Low = 0"
| "risk_rank Medium = 1"
| "risk_rank High = 2"

text \<open>
  The \<open>assessment\<close> dict of \<open>_assess_privacy_implications\<close>; \<open>SensitiveFields\<close> is a key
  that exists only once it has been stored. \<open>sensitive_fields\<close> is the local list of that name
  in the function.
\<close>

record assessment =
  PrivacyRisk :: risk
  SensitiveDataPresent :: bool
  Recommendations :: "string list"
  SensitiveFields :: "string list option"
  sensitive_fields :: "string list"

definition initial_assessment :: assessment where
  "initial_assessment =
     \<lparr>PrivacyRisk = Low, SensitiveDataPresent = False, Recommendations = [],
      SensitiveFields = None, sensitive_fields = []\<rparr>"

definition gps_keys :: "string list" where
  "gps_keys = [''GPS:GPSLatitude'', ''GPS:GPSLongitude'', ''GPSLatitude'', ''GPSLongitude'',
               ''Latitude'', ''Longitude'']"

definition serial_keys :: "string list" where
  "serial_keys = [''SerialNumber'', ''CameraSerialNumber'', ''BodySerialNumber'',
                  ''LensSerialNumber'']"

definition owner_keys :: "string list" where
  "owner_keys = [''OwnerName'', ''CameraOwnerName'', ''Artist'', ''Author'', ''Creator'',
                 ''By-line'']"

definition device_id_keys :: "string list" where
  "device_id_keys = [''DeviceID'', ''UniqueID'', ''IMEI'', ''UUID'']"

definition timestamp_keys :: "string list" where
  "timestamp_keys = [''DateTimeOriginal'', ''CreateDate'', ''ModifyDate'', ''DateCreated'']"

definition software_keys :: "string list" where
  "software_keys = [''Software'', ''ProcessingSoftware'', ''CreatorTool'']"

definition has_gps :: "pydict \<Rightarrow> bool" where
  "has_gps metadata = any_key is_not_none metadata gps_keys"

definition has_serial :: "pydict \<Rightarrow> bool" where
  "has_serial metadata = any_key truthy metadata serial_keys"

definition has_owner_info :: "pydict \<Rightarrow> bool" where
  "has_owner_info metadata = any_key truthy metadata owner_keys"

text \<open>
  \<open>for key in metadata: if any(id_key in key for id_key in device_id_keys) and
  metadata[key]: ...\<close> runs over the items of the record.
\<close>

definition has_device_id :: "pydict \<Rightarrow> bool" where
  "has_device_id metadata =
     list_ex (\<lambda>(key, v). list_ex (\<lambda>id_key. str_in id_key key) device_id_keys \<and> truthy v)
       metadata"

definition has_timestamp :: "pydict \<Rightarrow> bool" where
  "has_timestamp metadata = any_key truthy metadata timestamp_keys"

definition has_software_info :: "pydict \<Rightarrow> bool" where
  "has_software_info metadata = any_key truthy metadata software_keys"

text \<open>The checks of the pass, each as one step on the assessment, in the source's order.\<close>

definition check_gps :: "pydict \<Rightarrow> assessment \<Rightarrow> assessment" where
  "check_gps metadata a =
     (if has_gps metadata
      then a\<lparr>sensitive_fields := sensitive_fields a @ [''GPS Location''],
             Recommendations := Recommendations a @
               [''Remove GPS data to protect location privacy''],
             SensitiveDataPresent := True,
             PrivacyRisk := High\<rparr>
      else a)"

definition raise_to_medium :: "assessment \<Rightarrow> assessment" where
  "raise_to_medium a = (if PrivacyRisk a \<noteq> High then a\<lparr>PrivacyRisk := Medium\<rparr> else a)"

definition check_serial :: "pydict \<Rightarrow> assessment \<Rightarrow> assessment" where
  "check_serial metadata a =
     (if has_serial metadata
      then raise_to_medium
             (a\<lparr>sensitive_fields := sensitive_fields a @ [''Serial Number''],
                Recommendations := Recommendations a @
                  [''Remove serial numbers to prevent device tracking''],
                SensitiveDataPresent := True\<rparr>)
      else a)"

definition check_owner :: "pydict \<Rightarrow> assessment \<Rightarrow> assessment" where
  "check_owner metadata a =
     (if has_owner_info metadata
      then raise_to_medium
             (a\<lparr>sensitive_fields := sensitive_fields a @ [''Owner/Author Information''],
                Recommendations := Recommendations a @
                  [''Remove owner/author information for anonymity''],
                SensitiveDataPresent := True\<rparr>)
      else a)"

definition check_device_id :: "pydict \<Rightarrow> pyval \<Rightarrow> assessment \<Rightarrow> assessment" where
  "check_device_id metadata device_type a =
     (if device_type \<in> set [PStr ''Smartphone'', PStr ''Tablet'']
      then (if has_device_id metadata
            then raise_to_medium
                   (a\<lparr>sensitive_fields := sensitive_fields a @ [''Device Identifier''],
                      Recommendations := Recommendations a @
                        [''Remove unique device identifiers''],
                      SensitiveDataPresent := True\<rparr>)
            else a)
      else a)"

definition low_if_alone :: "assessment \<Rightarrow> assessment" where
  "low_if_alone a =
     (if \<not> SensitiveDataPresent a
      then a\<lparr>SensitiveDataPresent := True, PrivacyRisk := Low\<rparr>
      else a)"

definition check_timestamp :: "pydict \<Rightarrow> assessment \<Rightarrow> assessment" where
  "check_timestamp metadata a =
     (if has_timestamp metadata
      then low_if_alone
             (a\<lparr>sensitive_fields := sensitive_fields a @ [''Timestamp''],
                Recommendations := Recommendations a @
                  [''Consider removing timestamps if time information is sensitive'']\<rparr>)
      else a)"

definition check_software :: "pydict \<Rightarrow> assessment \<Rightarrow> assessment" where
  "check_software metadata a =
     (if has_software_info metadata
      then low_if_alone
             (a\<lparr>sensitive_fields := sensitive_fields a @ [''Software Information''],
                Recommendations := Recommendations a @
                  [''Consider removing software information to hide workflow details'']\<rparr>)
      else a)"

definition general_recommendation :: "assessment \<Rightarrow> assessment" where
  "general_recommendation a =
     (if SensitiveDataPresent a
      then a\<lparr>Recommendations := Recommendations a @
                 [''Use metadata cleaning tools before sharing images publicly''],
             SensitiveFields := Some (sensitive_fields a)\<rparr>
      else a\<lparr>Recommendations := Recommendations a @ [''No sensitive metadata detected'']\<rparr>)"

text \<open>
  The assessment after each step of one pass: the initial dict, then the state after the
  GPS, serial-number, owner, device-identifier, timestamp and software checks, and the
  returned assessment.
\<close>

definition privacy_pass :: "pydict \<Rightarrow> pyval \<Rightarrow> assessment list" where
  "privacy_pass metadata device_type =
     (let a0 = initial_assessment;
          a1 = check_gps metadata a0;
          a2 = check_serial metadata a1;
          a3 = check_owner metadata a2;
          a4 = check_device_id metadata device_type a3;
          a5 = check_timestamp metadata a4;
          a6 = check_software metadata a5;
          a7 = general_recommendation a6
      in [a0, a1, a2, a3, a4, a5, a6, a7])"

definition assess_privacy_implications :: "pydict \<Rightarrow> pyval \<Rightarrow> assessment" where
  "assess_privacy_implications metadata device_type =
     last (privacy_pass metadata device_type)"

definition risk_le :: "assessment \<Rightarrow> assessment \<Rightarrow> bool" where
  "risk_le a b = (risk_rank (PrivacyRisk a) \<le> risk_rank (PrivacyRisk b))"

section \<open>Runtime library\<close>

text \<open>
  What the source takes from the Python runtime and cannot be written out here is a
  parameter of the model: the UTF-8 codec (\<open>None\<close> is \<open>UnicodeDecodeError\<close>), the
  text that \<open>str()\<close> and an f-string give for a float, the text that \<open>str()\<close>
  gives for bytes, containers, fractions and datetimes, and \<open>datetime.strptime\<close>, which
  takes the text and the format and gives the datetime (\<open>None\<close> is its \<open>ValueError\<close>).
\<close>

record runtime =
  decode_utf8 :: "string \<Rightarrow> string option"
  float_str :: "rat \<Rightarrow> string"
  object_str :: "pyval \<Rightarrow> string"
  strptime :: "string \<Rightarrow> string \<Rightarrow> string option"

datatype error = ZeroDivisionError | ValueError | TypeError | OverflowError | OtherError

text \<open>\<open>str.strip()\<close> removes white space at both ends; \<open>strip('\x00')\<close> removes NULs.\<close>

definition is_space :: "char \<Rightarrow> bool" where
  "is_space c =
     (let n = (of_char c :: nat)
      in (9 \<le> n \<and> n \<le> 13) \<or> (28 \<le> n \<and> n \<le> 32) \<or> n = 133 \<or> n = 160)"

definition strip_with :: "(char \<Rightarrow> bool) \<Rightarrow> string \<Rightarrow> string" where
  "strip_with p s = rev (dropWhile p (rev (dropWhile p s)))"

definition py_strip :: "string \<Rightarrow> string" where
  "py_strip s = strip_with is_space s"


section \<open>Tag normalizer: cleaning values\<close>




section \<open>Numbers from text and values\<close>

definition is_digit :: "char \<Rightarrow> bool" where
  "is_digit c = (48 \<le> (of_char c :: nat) \<and> (of_char c :: nat) \<le> 57)"

definition digit_val :: "char \<Rightarrow> nat" where
  "digit_val c = of_char c - 48"

definition nat_of_digits :: "string \<Rightarrow> nat" where
  "nat_of_digits ds = foldl (\<lambda>a c. 10 * a + digit_val c) 0 ds"

text \<open>
  \<open>float(s)\<close> on text: surrounding white space, an optional sign, digits with an optional
  fraction (at least one digit in all), an optional exponent. \<open>None\<close> is \<open>ValueError\<close>.
  The literals \<open>inf\<close> and \<open>nan\<close> and digit groups joined by underscores denote no
  value of the model and are not accepted here.
\<close>

definition split_sign :: "string \<Rightarrow> bool \<times> string" where
  "split_sign s =
     (case s of
        [] \<Rightarrow> (False, [])
      | c # cs \<Rightarrow> if c = CHR ''-'' then (True, cs) else if c = CHR ''+'' then (False, cs)
                  else (False, s))"

definition parse_exponent :: "string \<Rightarrow> int option" where
  "parse_exponent s =
     (case s of
        [] \<Rightarrow> Some 0
      | c # cs \<Rightarrow>
          if c = CHR ''e'' \<or> c = CHR ''E''
          then (let (neg, ds) = split_sign cs
                in if ds \<noteq> [] \<and> list_all is_digit ds
                   then Some (if neg then - int (nat_of_digits ds) else int (nat_of_digits ds))
                   else None)
          else None)"

definition scale10 :: "rat \<Rightarrow> int \<Rightarrow> rat" where
  "scale10 x e = (if 0 \<le> e then x * 10 ^ nat e else x / 10 ^ nat (- e))"

definition float_of_string :: "string \<Rightarrow> rat option" where
  "float_of_string s =
     (let (neg, body) = split_sign (py_strip s);
          ip = takeWhile is_digit body;
          r1 = dropWhile is_digit body;
          has_point = (r1 \<noteq> [] \<and> hd r1 = CHR ''.'');
          fp = (if has_point then takeWhile is_digit (tl r1) else []);
          r2 = (if has_point then dropWhile is_digit (tl r1) else r1)
      in if ip = [] \<and> fp = [] then None
         else (case parse_exponent r2 of
                 None \<Rightarrow> None
               | Some e \<Rightarrow>
                   (let m = of_nat (nat_of_digits ip)
                            + of_nat (nat_of_digits fp) / 10 ^ length fp;
                        v = scale10 m e
                    in Some (if neg then - v else v))))"

text \<open>
  \<open>float(x)\<close> on a value: numbers convert, text and bytes are parsed, a \<open>Fraction\<close>
  divides, anything else is a \<open>TypeError\<close>.
\<close>

fun py_float :: "pyval \<Rightarrow> error + rat" where
  "py_float (PInt i) = Inr (of_int i)"
| "py_float (PBool b) = Inr (if b then 1 else 0)"
| "py_float (PFloat r) = Inr r"
| "py_float (PStr s) = (case float_of_string s of None \<Rightarrow> Inl ValueError | Some r \<Rightarrow> Inr r)"
| "py_float (PBytes s) = (case float_of_string s of None \<Rightarrow> Inl ValueError | Some r \<Rightarrow> Inr r)"
| "py_float (PFraction n d) =
     (if d = 0 then Inl ZeroDivisionError else Inr (of_int n / of_int d))"
| "py_float v = Inl TypeError"


fun num_value :: "pyval \<Rightarrow> rat option" where
  "num_value (PInt i) = Some (of_int i)"
| "num_value (PBool b) = Some (if b then 1 else 0)"
| "num_value (PFloat r) = Some r"
| "num_value (PFraction n d) = (if d = 0 then None else Some (of_int n / of_int d))"
| "num_value v = None"


section \<open>Rational values of an EXIF block\<close>







section \<open>Text of values\<close>

definition digit_char :: "nat \<Rightarrow> char" where
  "digit_char d = char_of (48 + d)"

fun digits_of_nat :: "nat \<Rightarrow> string" where
  "digits_of_nat n =
     (if n < 10 then [digit_char n] else digits_of_nat (n div 10) @ [digit_char (n mod 10)])"

definition str_of_int :: "int \<Rightarrow> string" where
  "str_of_int i = (if i < 0 then CHR ''-'' # digits_of_nat (nat (- i)) else digits_of_nat (nat i))"

text \<open>\<open>str(x)\<close>; \<open>None\<close> is the exception of an object whose \<open>str()\<close> raises.\<close>

fun py_str :: "runtime \<Rightarrow> pyval \<Rightarrow> string option" where
  "py_str R PNone = Some ''None''"
| "py_str R (PBool b) = Some (if b then ''True'' else ''False'')"
| "py_str R (PInt i) = Some (str_of_int i)"
| "py_str R (PFloat r) = Some (float_str R r)"
| "py_str R (PStr s) = Some s"
| "py_str R (POther s) = s"
| "py_str R v = Some (object_str R v)"

text \<open>\<open>str.lower()\<close> on the code points of the model.\<close>

definition lower_char :: "char \<Rightarrow> char" where
  "lower_char c =
     (let n = (of_char c :: nat)
      in if (65 \<le> n \<and> n \<le> 90) \<or> (192 \<le> n \<and> n \<le> 222 \<and> n \<noteq> 215)
         then char_of (n + 32) else c)"

definition py_lower :: "string \<Rightarrow> string" where
  "py_lower s = map lower_char s"


section \<open>Device identifier: make, model and device type\<close>


















section \<open>Tag normalizer: derived fields\<close>

text \<open>\<open>round(x)\<close> rounds to the nearest integer, a tie to the even one; \<open>round(x, n)\<close> does so at the n-th decimal.\<close>

definition py_round :: "rat \<Rightarrow> int" where
  "py_round x =
     (let f = \<lfloor>x\<rfloor>; d = x - of_int f
      in if d < 1 / 2 then f else if 1 / 2 < d then f + 1 else if even f then f else f + 1)"

definition round_to :: "nat \<Rightarrow> rat \<Rightarrow> rat" where
  "round_to n x = of_int (py_round (x * 10 ^ n)) / 10 ^ n"

text \<open>\<open>min(xs, key=f)\<close> on a list that is not empty: the first element with the least key.\<close>

fun min_by :: "('a \<Rightarrow> rat) \<Rightarrow> 'a \<Rightarrow> 'a list \<Rightarrow> 'a" where
  "min_by f best [] = best"
| "min_by f best (x # xs) = min_by f (if f x < f best then x else best) xs"

text \<open>\<open>try: ... except (ValueError, TypeError): pass\<close> around a computation that starts from \<open>d\<close>.\<close>

definition except_value_type :: "'a \<Rightarrow> error + 'a \<Rightarrow> error + 'a" where
  "except_value_type d r =
     (case r of
        Inl e \<Rightarrow> if e = ValueError \<or> e = TypeError then Inr d else Inl e
      | Inr x \<Rightarrow> Inr x)"

definition common_ratios :: "(rat \<times> string) list" where
  "common_ratios =
     [(1, ''1:1 (Square)''), (133 / 100, ''4:3''), (3 / 2, ''3:2''), (178 / 100, ''16:9''),
      (185 / 100, ''1.85:1 (Cinema)''), (235 / 100, ''2.35:1 (Cinemascope)''),
      (3 / 4, ''3:4 (Portrait)''), (67 / 100, ''2:3 (Portrait)''),
      (56 / 100, ''9:16 (Portrait)'')]"

definition width_height :: "pydict \<Rightarrow> error + (rat \<times> rat)" where
  "width_height result =
     (case py_float (the (dict_get result ''ImageWidth'')) of
        Inl e \<Rightarrow> Inl e
      | Inr width \<Rightarrow>
          (case py_float (the (dict_get result ''ImageHeight'')) of
             Inl e \<Rightarrow> Inl e
           | Inr height \<Rightarrow> Inr (width, height)))"

definition add_aspect_ratio :: "pydict \<Rightarrow> error + pydict" where
  "add_aspect_ratio result =
     (if has_key result ''ImageWidth'' \<and> has_key result ''ImageHeight''
      then except_value_type result
             (case width_height result of
                Inl e \<Rightarrow> Inl e
              | Inr (width, height) \<Rightarrow>
                  if 0 < width \<and> 0 < height
                  then (let aspect_ratio = width / height;
                            r1 = dict_set result ''AspectRatio'' (PFloat (round_to 3 aspect_ratio));
                            closest = min_by (\<lambda>x. \<bar>fst x - aspect_ratio\<bar>)
                                        (hd common_ratios) (tl common_ratios)
                        in Inr (if \<bar>fst closest - aspect_ratio\<bar> < 5 / 100
                                then dict_set r1 ''AspectRatioName'' (PStr (snd closest))
                                else r1))
                  else Inr result)
      else Inr result)"

definition add_megapixels :: "pydict \<Rightarrow> error + pydict" where
  "add_megapixels result =
     (if has_key result ''ImageWidth'' \<and> has_key result ''ImageHeight''
      then except_value_type result
             (case width_height result of
                Inl e \<Rightarrow> Inl e
              | Inr (width, height) \<Rightarrow>
                  if 0 < width \<and> 0 < height
                  then Inr (dict_set result ''Megapixels''
                              (PFloat (round_to 2 (width * height / 1000000))))
                  else Inr result)
      else Inr result)"

definition date_formats :: "string list" where
  "date_formats = [''%Y:%m:%d %H:%M:%S'', ''%Y-%m-%d %H:%M:%S'', ''%Y/%m/%d %H:%M:%S'',
                   ''%Y:%m:%d'', ''%Y-%m-%d'', ''%Y/%m/%d'']"

definition date_fields :: "(string \<times> string) list" where
  "date_fields = [(''DateTimeOriginal'', ''DateTaken''), (''CreateDate'', ''DateCreated''),
                  (''ModifyDate'', ''DateModified'')]"

text \<open>The first format that parses the text gives the date; no format, no date.\<close>

fun parse_date :: "runtime \<Rightarrow> string \<Rightarrow> string list \<Rightarrow> string option" where
  "parse_date R date_str [] = None"
| "parse_date R date_str (date_format # formats) =
     (case strptime R date_str date_format of
        Some date_obj \<Rightarrow> Some date_obj
      | None \<Rightarrow> parse_date R date_str formats)"

text \<open>
  One round of the loop over \<open>date_fields\<close>. A source value that is not text makes
  \<open>strptime\<close> raise \<open>TypeError\<close>, which the bare \<open>except\<close> swallows.
\<close>

definition add_date_field :: "runtime \<Rightarrow> pydict \<Rightarrow> string \<times> string \<Rightarrow> pydict" where
  "add_date_field R result st =
     (let source_field = fst st; target_field = snd st
      in if has_key result source_field \<and> \<not> has_key result target_field
         then (case dict_get result source_field of
                 Some (PStr date_str) \<Rightarrow>
                   (case parse_date R date_str date_formats of
                      Some date_obj \<Rightarrow> dict_set result target_field (PStr date_obj)
                    | None \<Rightarrow> result)
               | _ \<Rightarrow> result)
         else result)"

definition add_date_fields :: "runtime \<Rightarrow> pydict \<Rightarrow> pydict" where
  "add_date_fields R result = foldl (add_date_field R) result date_fields"

text \<open>\<open>sep.join(items)\<close>: every item must be text, or the join raises \<open>TypeError\<close>.\<close>

fun join_strs :: "string \<Rightarrow> string list \<Rightarrow> string" where
  "join_strs sep [] = []"
| "join_strs sep [x] = x"
| "join_strs sep (x # y # ys) = x @ sep @ join_strs sep (y # ys)"

fun text_items :: "pyval list \<Rightarrow> error + string list" where
  "text_items [] = Inr []"
| "text_items (PStr s # vs) = (case text_items vs of Inl e \<Rightarrow> Inl e | Inr ss \<Rightarrow> Inr (s # ss))"
| "text_items (v # vs) = Inl TypeError"

definition camera_fields :: "string list" where
  "camera_fields = [''Make'', ''Model'', ''Software'']"

definition present_values :: "pydict \<Rightarrow> string list \<Rightarrow> pyval list" where
  "present_values result fs = concat (map (\<lambda>f. case dict_get result f of None \<Rightarrow> [] | Some v \<Rightarrow> [v]) fs)"

definition add_camera_info :: "pydict \<Rightarrow> error + pydict" where
  "add_camera_info result =
     (let camera_info = present_values result camera_fields
      in if camera_info \<noteq> []
         then (case text_items camera_info of
                 Inl e \<Rightarrow> Inl e
               | Inr ss \<Rightarrow> Inr (dict_set result ''CameraInfo'' (PStr (join_strs '' - '' ss))))
         else Inr result)"

definition exposure_fields :: "(string \<times> string) list" where
  "exposure_fields = [(''FNumber'', ''F-Stop''), (''ExposureTime'', ''Exposure Time''),
                      (''ISOSpeedRatings'', ''ISO''), (''FocalLength'', ''Focal Length'')]"

text \<open>\<open>isinstance(value, (int, float))\<close>, and the text of \<open>{value}\<close> in an f-string.\<close>

fun is_number :: "pyval \<Rightarrow> bool" where
  "is_number (PInt i) = True"
| "is_number (PBool b) = True"
| "is_number (PFloat r) = True"
| "is_number v = False"

definition format_value :: "runtime \<Rightarrow> pyval \<Rightarrow> error + string" where
  "format_value R v = (case py_str R v of None \<Rightarrow> Inl OtherError | Some s \<Rightarrow> Inr s)"

text \<open>
  The text of an exposure time: below 1 it is the fraction \<open>1/round(1 / value)\<close>, and the
  division raises when the value is 0.
\<close>

definition format_exposure_time :: "runtime \<Rightarrow> pyval \<Rightarrow> error + string" where
  "format_exposure_time R v =
     (let x = the (num_value v)
      in if x < 1
         then (if x = 0 then Inl ZeroDivisionError
               else Inr (''1/'' @ str_of_int (py_round (1 / x)) @ ''s''))
         else (case format_value R v of Inl e \<Rightarrow> Inl e | Inr s \<Rightarrow> Inr (s @ ''s'')))"

definition exposure_text :: "runtime \<Rightarrow> string \<Rightarrow> pyval \<Rightarrow> error + string" where
  "exposure_text R source_field v =
     (if source_field = ''FNumber'' \<and> is_number v
      then (case format_value R v of Inl e \<Rightarrow> Inl e | Inr s \<Rightarrow> Inr (''f/'' @ s))
      else if source_field = ''ExposureTime'' \<and> is_number v
      then format_exposure_time R v
      else if source_field = ''FocalLength'' \<and> is_number v
      then (case format_value R v of Inl e \<Rightarrow> Inl e | Inr s \<Rightarrow> Inr (s @ ''mm''))
      else format_value R v)"

fun exposure_entries :: "runtime \<Rightarrow> pydict \<Rightarrow> (string \<times> string) list \<Rightarrow> error + string list" where
  "exposure_entries R result [] = Inr []"
| "exposure_entries R result ((source_field, label) # fs) =
     (case dict_get result source_field of
        None \<Rightarrow> exposure_entries R result fs
      | Some v \<Rightarrow>
          (case exposure_text R source_field v of
             Inl e \<Rightarrow> Inl e
           | Inr s \<Rightarrow>
               (case exposure_entries R result fs of
                  Inl e \<Rightarrow> Inl e
                | Inr ss \<Rightarrow> Inr ((label @ '': '' @ s) # ss))))"

definition add_exposure_info :: "runtime \<Rightarrow> pydict \<Rightarrow> error + pydict" where
  "add_exposure_info R result =
     (case exposure_entries R result exposure_fields of
        Inl e \<Rightarrow> Inl e
      | Inr exposure_info \<Rightarrow>
          Inr (if exposure_info \<noteq> []
               then dict_set result ''ExposureInfo'' (PStr (join_strs '', '' exposure_info))
               else result))"

text \<open>\<open>MetadataExtractor._add_derived_metadata\<close>: the steps in the source's order.\<close>

definition add_derived_metadata :: "runtime \<Rightarrow> pydict \<Rightarrow> error + pydict" where
  "add_derived_metadata R metadata =
     (case add_aspect_ratio metadata of
        Inl e \<Rightarrow> Inl e
      | Inr r1 \<Rightarrow>
          (case add_megapixels r1 of
             Inl e \<Rightarrow> Inl e
           | Inr r2 \<Rightarrow>
               (case add_camera_info (add_date_fields R r2) of
                  Inl e \<Rightarrow> Inl e
                | Inr r3 \<Rightarrow> add_exposure_info R r3)))"

section \<open>Regular expressions\<close>

text \<open>
  The patterns of the GPS parser use character classes, concatenation, optional parts,
  greedy repetition of a class and capturing groups. \<open>rmatch r s\<close> lists the ways
  \<open>r\<close> matches at the start of \<open>s\<close>, in the order in which a backtracking matcher
  tries them: each way is the rest of the text and the groups captured. \<open>re_search\<close>
  is \<open>re.search\<close>: the first way at the leftmost position that has one, given by its groups.
  The prime and double-prime signs of the source's classes lie outside the code points of
  the model; the classes keep the apostrophe and the quotation mark.
\<close>

datatype cclass = Digit | Space | Lit char | OneOf "char list"

fun in_class :: "cclass \<Rightarrow> char \<Rightarrow> bool" where
  "in_class Digit c = is_digit c"
| "in_class Space c = is_space c"
| "in_class (Lit x) c = (c = x)"
| "in_class (OneOf xs) c = (c \<in> set xs)"

datatype regex = Ch cclass | Cat regex regex | Opt regex | Many cclass | Many1 cclass | Grp regex

fun many :: "cclass \<Rightarrow> string \<Rightarrow> (string \<times> string list) list" where
  "many c [] = [([], [])]"
| "many c (x # xs) = (if in_class c x then many c xs @ [(x # xs, [])] else [(x # xs, [])])"

fun rmatch :: "regex \<Rightarrow> string \<Rightarrow> (string \<times> string list) list" where
  "rmatch (Ch c) s = (case s of [] \<Rightarrow> [] | x # xs \<Rightarrow> if in_class c x then [(xs, [])] else [])"
| "rmatch (Cat a b) s =
     concat (map (\<lambda>(s1, g1). map (\<lambda>(s2, g2). (s2, g1 @ g2)) (rmatch b s1)) (rmatch a s))"
| "rmatch (Opt a) s = rmatch a s @ [(s, [])]"
| "rmatch (Many c) s = many c s"
| "rmatch (Many1 c) s = (case s of [] \<Rightarrow> [] | x # xs \<Rightarrow> if in_class c x then many c xs else [])"
| "rmatch (Grp a) s = map (\<lambda>(s1, g1). (s1, take (length s - length s1) s # g1)) (rmatch a s)"

fun re_search :: "regex \<Rightarrow> string \<Rightarrow> string list option" where
  "re_search r [] = (case rmatch r [] of [] \<Rightarrow> None | m # ms \<Rightarrow> Some (snd m))"
| "re_search r (x # xs) =
     (case rmatch r (x # xs) of [] \<Rightarrow> re_search r xs | m # ms \<Rightarrow> Some (snd m))"

fun seq :: "regex list \<Rightarrow> regex" where
  "seq [] = Opt (Ch (OneOf []))"
| "seq [r] = r"
| "seq (r # rs) = Cat r (seq rs)"

definition degree_sign :: char where
  "degree_sign = CHR 0xB0"

text \<open>\<open>-?\d+\.\d+\<close>, \<open>\d+(?:\.\d+)?\<close> and \<open>\s*\<close>.\<close>

definition signed_decimal :: regex where
  "signed_decimal = seq [Opt (Ch (Lit CHR ''-'')), Many1 Digit, Ch (Lit CHR ''.''), Many1 Digit]"

definition seconds_number :: regex where
  "seconds_number = Cat (Many1 Digit) (Opt (Cat (Ch (Lit CHR ''.'')) (Many1 Digit)))"

definition spaces :: regex where
  "spaces = Many Space"

text \<open>\<open>(-?\d+\.\d+)\s*,\s*(-?\d+\.\d+)\<close>\<close>

definition decimal_pattern :: regex where
  "decimal_pattern =
     seq [Grp signed_decimal, spaces, Ch (Lit CHR '',''), spaces, Grp signed_decimal]"

text \<open>\<open>(\d+)DEG\s*(\d+)[']?\s*(\d+(?:\.\d+)?)["]?\s*([...])\<close> with the given directions.\<close>

definition dms_part :: "string \<Rightarrow> regex list" where
  "dms_part dirs =
     [Grp (Many1 Digit), Ch (Lit degree_sign), spaces, Grp (Many1 Digit),
      Opt (Ch (OneOf [CHR 0x27])), spaces, Grp seconds_number, Opt (Ch (OneOf [CHR 0x22])),
      spaces, Grp (Ch (OneOf dirs))]"

definition dms_pair_pattern :: regex where
  "dms_pair_pattern = seq (dms_part ''NS'' @ [spaces, Ch (Lit CHR '',''), spaces] @ dms_part ''EW'')"

definition dms_pattern :: regex where
  "dms_pattern = seq (dms_part ''NSEW'')"

text \<open>\<open>(\d+(?:\.\d+)?)DEG\s*([NSEW])\<close>\<close>

definition simple_pattern :: regex where
  "simple_pattern = seq [Grp seconds_number, Ch (Lit degree_sign), spaces, Grp (Ch (OneOf ''NSEW''))]"

section \<open>GPS resolver: coordinates as text\<close>

text \<open>\<open>'{x:.nf}'\<close>: the value rounded at the n-th decimal, with n decimals.\<close>

definition pad_left :: "nat \<Rightarrow> string \<Rightarrow> string" where
  "pad_left n s = replicate (n - length s) CHR ''0'' @ s"

definition fmt_fixed :: "nat \<Rightarrow> rat \<Rightarrow> string" where
  "fmt_fixed n x =
     (let m = nat (py_round (\<bar>x\<bar> * 10 ^ n))
      in (if x < 0 then ''-'' else '''')
         @ digits_of_nat (m div 10 ^ n) @ ''.'' @ pad_left n (digits_of_nat (m mod 10 ^ n)))"

text \<open>\<open>GPSParser.decimal_to_dms\<close>; \<open>int(coord)\<close> is the floor of a value that is not negative.\<close>

definition decimal_to_dms :: "rat \<Rightarrow> string \<Rightarrow> string" where
  "decimal_to_dms coord coord_type =
     (let direction = (if py_lower coord_type = ''lat''
                       then (if 0 \<le> coord then ''N'' else ''S'')
                       else (if 0 \<le> coord then ''E'' else ''W''));
          c = \<bar>coord\<bar>;
          degrees = \<lfloor>c\<rfloor>;
          minutes_float = (c - of_int degrees) * 60;
          minutes = \<lfloor>minutes_float\<rfloor>;
          seconds = (minutes_float - of_int minutes) * 60
      in str_of_int degrees @ [degree_sign] @ '' '' @ str_of_int minutes @ [CHR 0x27] @ '' ''
         @ fmt_fixed 2 seconds @ [CHR 0x22] @ '' '' @ direction)"

text \<open>\<open>GPSParser.dms_to_decimal\<close>; the \<open>ValueError\<close> is the one it raises itself.\<close>

definition apply_direction :: "string \<Rightarrow> rat \<Rightarrow> rat" where
  "apply_direction direction x = (if direction = ''S'' \<or> direction = ''W'' then - x else x)"

definition dms_value :: "string \<Rightarrow> string \<Rightarrow> string \<Rightarrow> error + rat" where
  "dms_value d m s =
     (case float_of_string s of
        None \<Rightarrow> Inl ValueError
      | Some seconds \<Rightarrow>
          Inr (of_nat (nat_of_digits d) + of_nat (nat_of_digits m) / 60 + seconds / 3600))"

definition dms_to_decimal :: "string \<Rightarrow> error + rat" where
  "dms_to_decimal dms_str =
     (case re_search dms_pattern dms_str of
        Some [d, m, s, direction] \<Rightarrow>
          (case dms_value d m s of
             Inl e \<Rightarrow> Inl e
           | Inr decimal \<Rightarrow> Inr (apply_direction direction decimal))
      | _ \<Rightarrow>
          (case re_search simple_pattern dms_str of
             Some [d, direction] \<Rightarrow>
               (case float_of_string d of
                  None \<Rightarrow> Inl ValueError
                | Some degrees \<Rightarrow> Inr (apply_direction direction degrees))
           | _ \<Rightarrow>
               (case float_of_string dms_str of
                  None \<Rightarrow> Inl ValueError
                | Some r \<Rightarrow> Inr r)))"

text \<open>\<open>GPSParser._extract_coordinates_from_string\<close>\<close>

definition in_range :: "rat \<Rightarrow> rat \<Rightarrow> bool" where
  "in_range lat lon = (- 90 \<le> lat \<and> lat \<le> 90 \<and> - 180 \<le> lon \<and> lon \<le> 180)"

definition decimal_coordinates :: "string \<Rightarrow> (rat \<times> rat) option" where
  "decimal_coordinates text =
     (case re_search decimal_pattern text of
        Some [a, b] \<Rightarrow>
          (case float_of_string a of
             None \<Rightarrow> None
           | Some lat \<Rightarrow>
               (case float_of_string b of
                  None \<Rightarrow> None
                | Some lon \<Rightarrow> if in_range lat lon then Some (lat, lon) else None))
      | _ \<Rightarrow> None)"

definition dms_coordinates :: "string \<Rightarrow> (rat \<times> rat) option" where
  "dms_coordinates text =
     (case re_search dms_pair_pattern text of
        Some [lat_deg, lat_min, lat_sec, lat_dir, lon_deg, lon_min, lon_sec, lon_dir] \<Rightarrow>
          (case dms_value lat_deg lat_min lat_sec of
             Inl e \<Rightarrow> None
           | Inr la \<Rightarrow>
               (case dms_value lon_deg lon_min lon_sec of
                  Inl e \<Rightarrow> None
                | Inr lo \<Rightarrow>
                    (let lat = (if lat_dir = ''S'' then - la else la);
                         lon = (if lon_dir = ''W'' then - lo else lo)
                     in if in_range lat lon then Some (lat, lon) else None)))
      | _ \<Rightarrow> None)"

definition extract_coordinates_from_string :: "string \<Rightarrow> (rat \<times> rat) option" where
  "extract_coordinates_from_string text =
     (case decimal_coordinates text of
        Some c \<Rightarrow> Some c
      | None \<Rightarrow> dms_coordinates text)"

section \<open>Properties of the privacy assessment\<close>

lemma risk_raise_to_medium: "risk_le a (raise_to_medium a)"
  by (cases "PrivacyRisk a") (simp_all add: risk_le_def raise_to_medium_def)

lemma high_raise_to_medium: "PrivacyRisk a = High \<Longrightarrow> PrivacyRisk (raise_to_medium a) = High"
  by (simp add: raise_to_medium_def)

lemma sensitive_raise_to_medium:
  "SensitiveDataPresent (raise_to_medium a) = SensitiveDataPresent a"
  by (simp add: raise_to_medium_def)

text \<open>
  The two low-risk checks write \<open>Low\<close> only when nothing was flagged before; a state
  whose risk is above \<open>Low\<close> has been flagged, which is the invariant of the pass.
\<close>

definition flagged_inv :: "assessment \<Rightarrow> bool" where
  "flagged_inv a = (PrivacyRisk a = Low \<or> SensitiveDataPresent a)"

lemma risk_low_if_alone: "flagged_inv a \<Longrightarrow> risk_le a (low_if_alone a)"
  by (auto simp: flagged_inv_def risk_le_def low_if_alone_def)

lemma inv_low_if_alone: "flagged_inv (low_if_alone a)"
  by (simp add: flagged_inv_def low_if_alone_def)

lemma inv_raise_to_medium: "SensitiveDataPresent a \<Longrightarrow> flagged_inv (raise_to_medium a)"
  by (simp add: flagged_inv_def raise_to_medium_def)

lemma step_gps: "risk_le a (check_gps md a) \<and> (flagged_inv a \<longrightarrow> flagged_inv (check_gps md a))"
  by (cases "PrivacyRisk a") (simp_all add: check_gps_def risk_le_def flagged_inv_def)

lemma step_serial:
  "risk_le a (check_serial md a) \<and> (flagged_inv a \<longrightarrow> flagged_inv (check_serial md a))"
  by (cases "PrivacyRisk a")
     (simp_all add: check_serial_def risk_le_def flagged_inv_def raise_to_medium_def)

lemma step_owner:
  "risk_le a (check_owner md a) \<and> (flagged_inv a \<longrightarrow> flagged_inv (check_owner md a))"
  by (cases "PrivacyRisk a")
     (simp_all add: check_owner_def risk_le_def flagged_inv_def raise_to_medium_def)

lemma step_device_id:
  "risk_le a (check_device_id md dt a)
   \<and> (flagged_inv a \<longrightarrow> flagged_inv (check_device_id md dt a))"
  by (cases "PrivacyRisk a")
     (simp_all add: check_device_id_def risk_le_def flagged_inv_def raise_to_medium_def)

lemma step_timestamp:
  "flagged_inv a \<Longrightarrow>
   risk_le a (check_timestamp md a) \<and> flagged_inv (check_timestamp md a)"
  by (auto simp: check_timestamp_def risk_le_def flagged_inv_def low_if_alone_def)

lemma step_software:
  "flagged_inv a \<Longrightarrow>
   risk_le a (check_software md a) \<and> flagged_inv (check_software md a)"
  by (auto simp: check_software_def risk_le_def flagged_inv_def low_if_alone_def)

lemma step_general: "PrivacyRisk (general_recommendation a) = PrivacyRisk a"
  by (simp add: general_recommendation_def)

lemma inv_initial: "flagged_inv initial_assessment"
  by (simp add: flagged_inv_def initial_assessment_def)

lemma risk_le_trans: "risk_le a b \<Longrightarrow> risk_le b c \<Longrightarrow> risk_le a c"
  by (simp add: risk_le_def)

lemma high_stays: "PrivacyRisk a = High \<Longrightarrow> risk_le a b \<Longrightarrow> PrivacyRisk b = High"
  by (cases "PrivacyRisk b") (simp_all add: risk_le_def)

lemma has_gps_high: "has_gps md \<Longrightarrow> PrivacyRisk (check_gps md a) = High"
  by (simp add: check_gps_def)

text \<open>
  Claim C2. Along one pass of the privacy assessment the risk never goes down: every
  later state of the pass has a risk at least that of every earlier one, in the order
  Low, Medium, High. When a GPS key is present with a value (the test the code makes),
  the risk is High after the GPS check and in every later state; so a record with GPS
  and serial-number keys is assessed High.
\<close>

theorem privacy_risk_monotonic:
  "sorted_wrt risk_le (privacy_pass md dt)
   \<and> (has_gps md \<longrightarrow> (\<forall>a \<in> set (tl (privacy_pass md dt)). PrivacyRisk a = High))
   \<and> (has_gps md \<and> has_serial md \<longrightarrow>
        PrivacyRisk (assess_privacy_implications md dt) = High)"
proof -
  define a0 where "a0 = initial_assessment"
  define a1 where "a1 = check_gps md a0"
  define a2 where "a2 = check_serial md a1"
  define a3 where "a3 = check_owner md a2"
  define a4 where "a4 = check_device_id md dt a3"
  define a5 where "a5 = check_timestamp md a4"
  define a6 where "a6 = check_software md a5"
  define a7 where "a7 = general_recommendation a6"
  have pass: "privacy_pass md dt = [a0, a1, a2, a3, a4, a5, a6, a7]"
    by (simp add: privacy_pass_def Let_def a0_def a1_def a2_def a3_def a4_def a5_def
        a6_def a7_def)
  have i0: "flagged_inv a0" by (simp add: a0_def inv_initial)
  have s1: "risk_le a0 a1" and i1: "flagged_inv a1"
    using step_gps [of a0 md] i0 by (simp_all add: a1_def)
  have s2: "risk_le a1 a2" and i2: "flagged_inv a2"
    using step_serial [of a1 md] i1 by (simp_all add: a2_def)
  have s3: "risk_le a2 a3" and i3: "flagged_inv a3"
    using step_owner [of a2 md] i2 by (simp_all add: a3_def)
  have s4: "risk_le a3 a4" and i4: "flagged_inv a4"
    using step_device_id [of a3 md dt] i3 by (simp_all add: a4_def)
  have s5: "risk_le a4 a5" and i5: "flagged_inv a5"
    using step_timestamp [OF i4, of md] by (simp_all add: a5_def)
  have s6: "risk_le a5 a6" and i6: "flagged_inv a6"
    using step_software [OF i5, of md] by (simp_all add: a6_def)
  have s7: "risk_le a6 a7"
    by (simp add: a7_def risk_le_def step_general)
  have mono: "sorted_wrt risk_le (privacy_pass md dt)"
    using s1 s2 s3 s4 s5 s6 s7 by (simp add: pass risk_le_def)
  have high: "\<forall>a \<in> set (tl (privacy_pass md dt)). PrivacyRisk a = High" if g: "has_gps md"
  proof -
    have h1: "PrivacyRisk a1 = High" using g by (simp add: a1_def has_gps_high)
    have h2: "PrivacyRisk a2 = High" using high_stays [OF h1 s2] .
    have h3: "PrivacyRisk a3 = High" using high_stays [OF h2 s3] .
    have h4: "PrivacyRisk a4 = High" using high_stays [OF h3 s4] .
    have h5: "PrivacyRisk a5 = High" using high_stays [OF h4 s5] .
    have h6: "PrivacyRisk a6 = High" using high_stays [OF h5 s6] .
    have h7: "PrivacyRisk a7 = High" using high_stays [OF h6 s7] .
    show ?thesis using h1 h2 h3 h4 h5 h6 h7 by (simp add: pass)
  qed
  have final: "PrivacyRisk (assess_privacy_implications md dt) = High" if g: "has_gps md"
    using high [OF g] by (simp add: assess_privacy_implications_def pass)
  show ?thesis using mono high final by blast
qed

theorem privacy_risk_monotonic_witness:
  "has_gps [(''GPSLatitude'', PFloat 40), (''SerialNumber'', PStr ''X1'')]
   \<and> has_serial [(''GPSLatitude'', PFloat 40), (''SerialNumber'', PStr ''X1'')]
   \<and> PrivacyRisk (assess_privacy_implications
         [(''GPSLatitude'', PFloat 40), (''SerialNumber'', PStr ''X1'')] (PStr ''Camera'')) = High
   \<and> sorted_wrt risk_le
        (privacy_pass [(''GPSLatitude'', PFloat 40), (''SerialNumber'', PStr ''X1'')]
           (PStr ''Camera''))"
proof -
  have g: "has_gps [(''GPSLatitude'', PFloat 40), (''SerialNumber'', PStr ''X1'')]"
    by (simp add: has_gps_def any_key_def key_passes_def dict_get_def gps_keys_def
        is_not_none_def)
  have s: "has_serial [(''GPSLatitude'', PFloat 40), (''SerialNumber'', PStr ''X1'')]"
    by (simp add: has_serial_def any_key_def key_passes_def dict_get_def serial_keys_def)
  show ?thesis
    using g s privacy_risk_monotonic
      [of "[(''GPSLatitude'', PFloat 40), (''SerialNumber'', PStr ''X1'')]" "PStr ''Camera''"]
    by blast
qed

section \<open>Properties of the tag normalizer\<close>





section \<open>Properties of the device-type classification\<close>

















section \<open>Properties of the derived fields\<close>

text \<open>
  Claim C3 on the code. Only the date fields are guarded by \<open>target_field not in result\<close>;
  the other derived fields are stored unconditionally. A record that already has a
  \<open>CameraInfo\<close> key, or an \<open>AspectRatio\<close> key, loses the value it had.
\<close>

theorem derived_fields_overwrite:
  "add_derived_metadata R [(''Make'', PStr ''Canon''), (''CameraInfo'', PStr ''studio body'')]
     = Inr [(''Make'', PStr ''Canon''), (''CameraInfo'', PStr ''Canon'')]
   \<and> add_derived_metadata R
       [(''ImageWidth'', PInt 4000), (''ImageHeight'', PInt 3000), (''AspectRatio'', PStr ''4:3'')]
     = Inr [(''ImageWidth'', PInt 4000), (''ImageHeight'', PInt 3000),
            (''AspectRatio'', PFloat (1333 / 1000)), (''AspectRatioName'', PStr ''4:3''),
            (''Megapixels'', PFloat 12)]"
  by code_simp

text \<open>
  Claim C9 on the code. An exposure time of 0 is below 1, so the summary divides 1 by it:
  the division raises, nothing catches it, and the derivation of the record ends with
  the exception instead of a record.
\<close>

theorem exposure_time_zero_raises:
  "add_derived_metadata R [(''ExposureTime'', PInt 0)] = Inl ZeroDivisionError
   \<and> add_derived_metadata R [(''Make'', PStr ''Canon''), (''ExposureTime'', PFloat 0)]
       = Inl ZeroDivisionError"
  by code_simp

end
